theory Spec2Isabelle
  imports Main
begin

section \<open>Flight search adapter: \<^verbatim>\<open>server.py\<close>\<close>

text \<open>
  The module has one operation, \<^verbatim>\<open>search_flights\<close>: it builds the query of one
  HTTP GET, issues it, and turns the answer into text. The model follows the source line
  by line. Python strings are \<open>string\<close>, one \<open>char\<close> for one character of the Python
  string (codes from 128 on stand for the non-ASCII characters); Python integers are
  \<open>int\<close>.
\<close>

subsection \<open>Strings and numbers of the Python runtime\<close>

text \<open>\<^verbatim>\<open>s.replace(c, "")\<close> for a one-character \<open>c\<close>: every occurrence is deleted.\<close>

primrec str_replace_empty :: "char \<Rightarrow> string \<Rightarrow> string" where
  "str_replace_empty c [] = []"
| "str_replace_empty c (x # xs) =
     (if x = c then str_replace_empty c xs else x # str_replace_empty c xs)"

text \<open>\<^verbatim>\<open>s.rstrip(c)\<close> for a one-character \<open>c\<close>.\<close>

definition str_rstrip :: "char \<Rightarrow> string \<Rightarrow> string" where
  "str_rstrip c s = rev (dropWhile (\<lambda>x. x = c) (rev s))"

text \<open>\<^verbatim>\<open>sep.join(xs)\<close>.\<close>

fun str_join :: "string \<Rightarrow> string list \<Rightarrow> string" where
  "str_join sep [] = []"
| "str_join sep [x] = x"
| "str_join sep (x # y # ys) = x @ sep @ str_join sep (y # ys)"

text \<open>The decimal digit \<open>d\<close>, for \<open>d\<close> below 10 (every use is).\<close>

definition digit_char :: "nat \<Rightarrow> char" where
  "digit_char d = ''0123456789'' ! d"

text \<open>\<^verbatim>\<open>str(n)\<close> for a non-negative integer, and for any integer.\<close>

fun str_nat :: "nat \<Rightarrow> string" where
  "str_nat n = (if n < 10 then [digit_char n] else str_nat (n div 10) @ [digit_char (n mod 10)])"

declare str_nat.simps [simp del]

definition str_int :: "int \<Rightarrow> string" where
  "str_int n = (if n < 0 then CHR ''-'' # str_nat (nat (- n)) else str_nat (nat n))"

text \<open>
  \<^verbatim>\<open>format(n, ",")\<close>, the \<^verbatim>\<open>{n:,}\<close> of an f-string, for an integer: decimal digits in
  groups of three from the right, a comma between the groups, the sign in front.
\<close>

definition pad3 :: "nat \<Rightarrow> string" where
  "pad3 n = [digit_char (n div 100 mod 10), digit_char (n div 10 mod 10), digit_char (n mod 10)]"

fun group_nat :: "nat \<Rightarrow> string" where
  "group_nat n =
     (if n < 1000 then str_nat n else group_nat (n div 1000) @ CHR '','' # pad3 (n mod 1000))"

declare group_nat.simps [simp del]

definition format_comma_int :: "int \<Rightarrow> string" where
  "format_comma_int n =
     (if n < 0 then CHR ''-'' # group_nat (nat (- n)) else group_nat (nat n))"

subsection \<open>The arguments of \<^verbatim>\<open>search_flights\<close>\<close>

text \<open>
  The parameters of the function, lines 21 to 32. \<open>return_date\<close> is
  \<^verbatim>\<open>Optional[str]\<close>: \<open>None\<close> is Python's \<^verbatim>\<open>None\<close>.
\<close>

record flight_args =
  trip_type :: string
  departure_city :: string
  arrival_city :: string
  departure_date :: string
  return_date :: "string option"
  adults :: int
  children :: int
  infants :: int
  seat_class :: string
  raw_json :: bool

text \<open>
  A call names some of the parameters and omits the others; an omitted parameter takes the
  default written in the signature. For \<open>call_return_date\<close>, \<open>None\<close> is an omitted
  argument, \<open>Some None\<close> an explicit \<^verbatim>\<open>None\<close>.
\<close>

record tool_call =
  call_trip_type :: "string option"
  call_departure_city :: "string option"
  call_arrival_city :: "string option"
  call_departure_date :: "string option"
  call_return_date :: "string option option"
  call_adults :: "int option"
  call_children :: "int option"
  call_infants :: "int option"
  call_seat_class :: "string option"
  call_raw_json :: "bool option"

definition or_default :: "'a option \<Rightarrow> 'a \<Rightarrow> 'a" where
  "or_default given dflt = (case given of None \<Rightarrow> dflt | Some v \<Rightarrow> v)"

definition bind_arguments :: "tool_call \<Rightarrow> flight_args" where
  "bind_arguments c =
     \<lparr> trip_type = or_default (call_trip_type c) ''RT'',
       departure_city = or_default (call_departure_city c) ''ICN'',
       arrival_city = or_default (call_arrival_city c) ''FUK'',
       departure_date = or_default (call_departure_date c) ''2026-03-03'',
       return_date = or_default (call_return_date c) (Some ''2026-03-09''),
       adults = or_default (call_adults c) 1,
       children = or_default (call_children c) 0,
       infants = or_default (call_infants c) 0,
       seat_class = or_default (call_seat_class c) ''Y'',
       raw_json = or_default (call_raw_json c) False \<rparr>"

subsection \<open>Request builder\<close>

text \<open>A value of the query dictionary: a string or an integer.\<close>

datatype qval = QStr string | QInt int

text \<open>
  Lines 50 and 51. \<^verbatim>\<open>if return_date\<close> is false for \<^verbatim>\<open>None\<close> and for the empty
  string.
\<close>

definition s_dt :: "flight_args \<Rightarrow> string" where
  "s_dt a = str_replace_empty CHR ''-'' (departure_date a)"

definition e_dt :: "flight_args \<Rightarrow> string" where
  "e_dt a =
     (case return_date a of
        None \<Rightarrow> ''''
      | Some d \<Rightarrow> if d \<noteq> '''' then str_replace_empty CHR ''-'' d else '''')"

definition endpoint :: string where
  "endpoint = ''/flight/api/international/booking/flightInterFareSearchJson''"

text \<open>
  Lines 59 to 100: the query dictionary, in the order of the source. \<open>now_ms\<close> is
  \<^verbatim>\<open>int(time.time() * 1000)\<close>, the clock reading of the call.
\<close>

definition params :: "int \<Rightarrow> flight_args \<Rightarrow> (string \<times> qval) list" where
  "params now_ms a =
     [ (''skin'', QStr ''onlinetour''),
       (''resId'', QStr ''''),
       (''soto'', QStr ''N''),
       (''trip'', QStr (trip_type a)),
       (''startDt'', QStr (s_dt a)),
       (''endDt'', QStr (e_dt a)),
       (''sDate1'', QStr ''''),
       (''sDate2'', QStr ''''),
       (''sDate3'', QStr ''''),
       (''sCity1'', QStr (departure_city a)),
       (''eCity1'', QStr (arrival_city a)),
       (''eCity1NtDesc'', QStr ''''),
       (''sCity2'', QStr (if trip_type a = ''RT'' then arrival_city a else '''')),
       (''eCity2'', QStr (if trip_type a = ''RT'' then departure_city a else '''')),
       (''sCity3'', QStr ''''),
       (''eCity3'', QStr ''''),
       (''adt'', QInt (adults a)),
       (''chd'', QInt (children a)),
       (''inf'', QInt (infants a)),
       (''filterAirLine'', QStr ''''),
       (''filterViaNo'', QStr ''''),
       (''seatType'', QStr (seat_class a)),
       (''best'', QStr ''Y''),
       (''sgc'', QStr ''''),
       (''rgc'', QStr ''''),
       (''partnerCode'', QStr ''''),
       (''eventNum'', QStr ''''),
       (''classJoinNum'', QStr ''''),
       (''partnerNum'', QStr ''''),
       (''fareType'', QStr ''Y''),
       (''eventInd'', QStr ''''),
       (''splitNo'', QStr ''1000''),
       (''epricingYn'', QStr ''N''),
       (''blockGoodsYn'', QStr ''Y''),
       (''summary'', QStr ''N''),
       (''schedule'', QStr ''Y''),
       (''SGMap'', QStr ''Y''),
       (''Host'', QStr ''Y''),
       (''passDataYn'', QStr ''N''),
       (''_'', QStr (str_int now_ms)) ]"

definition headers :: "(string \<times> string) list" where
  "headers =
     [ (''User-Agent'',
        ''Mozilla/5.0 (Windows NT 10.0; Win64; x64) AppleWebKit/537.36 (KHTML, like Gecko) Chrome/120.0.0.0 Safari/537.36''),
       (''Referer'', ''https://www.onlinetour.co.kr/flight/international''),
       (''Accept'', ''application/json, text/javascript, */*; q=0.01''),
       (''X-Requested-With'', ''XMLHttpRequest'') ]"

text \<open>The value the query dictionary holds under a key.\<close>

definition param :: "int \<Rightarrow> flight_args \<Rightarrow> string \<Rightarrow> qval option" where
  "param now_ms a k = map_of (params now_ms a) k"

subsection \<open>Parsed JSON and the operations of the interpreter on it\<close>

text \<open>
  What \<^verbatim>\<open>response.json()\<close> returns: \<^verbatim>\<open>None\<close>, a bool, an int, a str, a list, or
  a dict with string keys (in insertion order; a parsed document has no key twice, and
  \<open>map_of\<close> reads the first binding). JSON numbers with a fraction or an exponent
  (Python floats) are not represented: the model covers the documents whose numbers are
  integers.
\<close>

datatype json =
    JNull
  | JBool bool
  | JInt int
  | JStr string
  | JArr "json list"
  | JObj "(string \<times> json) list"

text \<open>
  The operations the source applies to parsed values are dynamically typed: on a value of
  the wrong type the interpreter raises (\<^verbatim>\<open>AttributeError\<close>, \<^verbatim>\<open>TypeError\<close>,
  \<^verbatim>\<open>ValueError\<close>, \<^verbatim>\<open>KeyError\<close>, \<^verbatim>\<open>IndexError\<close>, all subclasses of
  \<^verbatim>\<open>Exception\<close>). A \<open>fault\<close> names the operation and its operands; the message of the
  exception is the interpreter's and is read from the environment.
\<close>

datatype fault =
    NoAttribute json string
  | NoLen json
  | NotSliceable json
  | NotIterable json
  | NotSubscriptable json
  | BadOperands json json
  | BadFormat json

text \<open>
  The exceptions of the flow, by the two handlers that tell them apart: the subclasses of
  \<^verbatim>\<open>httpx.HTTPError\<close> (transport errors, among them timeouts and connection failures,
  and the \<^verbatim>\<open>HTTPStatusError\<close> of \<^verbatim>\<open>raise_for_status\<close>), and every other subclass
  of \<^verbatim>\<open>Exception\<close>. The string is \<^verbatim>\<open>str(e)\<close>. Signals outside \<^verbatim>\<open>Exception\<close>
  (interrupt, exit, task cancellation) are no outcome of the upstream call and are not
  represented.
\<close>

datatype httpx_error = TimeoutException | ConnectError | HTTPStatusError | OtherHTTPError

datatype py_exc = HTTPError httpx_error string | Exception string

text \<open>\<^verbatim>\<open>response.json()\<close>: the parsed document, or \<^verbatim>\<open>json.JSONDecodeError\<close>, or
  another exception (for instance a body that is not valid UTF-8).\<close>

datatype json_parse = Parsed json | JSONDecodeError | ParseRaises py_exc

record http_response =
  status_code :: int
  body_text :: string
  json_body :: json_parse

record http_request =
  url :: string
  query :: "(string \<times> qval) list"
  req_headers :: "(string \<times> string) list"
  timeout_s :: nat

text \<open>\<^verbatim>\<open>await client.get(...)\<close> raises or returns a response.\<close>

datatype get_outcome = Raises py_exc | Responds http_response

text \<open>
  What the function reads from outside: the environment variable behind
  \<^verbatim>\<open>BASE_URL\<close>, the clock, the upstream service, and the texts that the interpreter and
  httpx choose (exception messages, and \<^verbatim>\<open>str()\<close> of a list or a dict).
\<close>

record env =
  FLIGHT_API_BASE_URL :: "string option"
  time_ms :: int
  client_get :: "http_request \<Rightarrow> get_outcome"
  fault_text :: "fault \<Rightarrow> string"
  status_error_text :: "http_response \<Rightarrow> string"
  repr_text :: "json \<Rightarrow> string"

definition then_do :: "py_exc + 'a \<Rightarrow> ('a \<Rightarrow> py_exc + 'b) \<Rightarrow> py_exc + 'b" where
  "then_do m f = (case m of Inl e \<Rightarrow> Inl e | Inr x \<Rightarrow> f x)"

definition raise_fault :: "env \<Rightarrow> fault \<Rightarrow> py_exc + 'a" where
  "raise_fault env f = Inl (Exception (fault_text env f))"

text \<open>\<^verbatim>\<open>obj.get(k, dflt)\<close>: only a dict has the method.\<close>

definition dict_get :: "env \<Rightarrow> json \<Rightarrow> string \<Rightarrow> json \<Rightarrow> py_exc + json" where
  "dict_get env obj k dflt =
     (case obj of
        JObj kvs \<Rightarrow> Inr (case map_of kvs k of None \<Rightarrow> dflt | Some v \<Rightarrow> v)
      | _ \<Rightarrow> raise_fault env (NoAttribute obj ''get''))"

text \<open>Truth value of a parsed value (\<^verbatim>\<open>if x\<close>, \<^verbatim>\<open>not x\<close>).\<close>

fun truthy :: "json \<Rightarrow> bool" where
  "truthy JNull = False"
| "truthy (JBool b) = b"
| "truthy (JInt n) = (n \<noteq> 0)"
| "truthy (JStr s) = (s \<noteq> [])"
| "truthy (JArr xs) = (xs \<noteq> [])"
| "truthy (JObj kvs) = (kvs \<noteq> [])"

text \<open>\<^verbatim>\<open>len(x)\<close>.\<close>

fun py_len :: "env \<Rightarrow> json \<Rightarrow> py_exc + nat" where
  "py_len env (JStr s) = Inr (length s)"
| "py_len env (JArr xs) = Inr (length xs)"
| "py_len env (JObj kvs) = Inr (length kvs)"
| "py_len env x = raise_fault env (NoLen x)"

text \<open>\<^verbatim>\<open>x[:n]\<close>: a prefix of a str or of a list; a dict cannot be sliced.\<close>

fun py_slice_to :: "env \<Rightarrow> nat \<Rightarrow> json \<Rightarrow> py_exc + json" where
  "py_slice_to env n (JStr s) = Inr (JStr (take n s))"
| "py_slice_to env n (JArr xs) = Inr (JArr (take n xs))"
| "py_slice_to env n x = raise_fault env (NotSliceable x)"

text \<open>The values a \<^verbatim>\<open>for\<close> loop draws: list elements, the characters of a str, dict keys.\<close>

fun py_iter :: "env \<Rightarrow> json \<Rightarrow> py_exc + json list" where
  "py_iter env (JArr xs) = Inr xs"
| "py_iter env (JStr s) = Inr (map (\<lambda>c. JStr [c]) s)"
| "py_iter env (JObj kvs) = Inr (map (\<lambda>kv. JStr (fst kv)) kvs)"
| "py_iter env x = raise_fault env (NotIterable x)"

text \<open>\<^verbatim>\<open>x[0]\<close>.\<close>

fun py_index0 :: "env \<Rightarrow> json \<Rightarrow> py_exc + json" where
  "py_index0 env (JArr (x # xs)) = Inr x"
| "py_index0 env (JStr (c # s)) = Inr (JStr [c])"
| "py_index0 env x = raise_fault env (NotSubscriptable x)"

text \<open>A bool is an int in arithmetic and in number formatting.\<close>

fun num_of :: "json \<Rightarrow> int option" where
  "num_of (JInt n) = Some n"
| "num_of (JBool b) = Some (if b then 1 else 0)"
| "num_of x = None"

text \<open>\<^verbatim>\<open>x + y\<close>: numbers add, two strs or two lists concatenate, the rest raises.\<close>

definition py_add :: "env \<Rightarrow> json \<Rightarrow> json \<Rightarrow> py_exc + json" where
  "py_add env x y =
     (case (num_of x, num_of y) of
        (Some m, Some n) \<Rightarrow> Inr (JInt (m + n))
      | _ \<Rightarrow>
        (case (x, y) of
           (JStr s, JStr t) \<Rightarrow> Inr (JStr (s @ t))
         | (JArr s, JArr t) \<Rightarrow> Inr (JArr (s @ t))
         | _ \<Rightarrow> raise_fault env (BadOperands x y)))"

text \<open>\<^verbatim>\<open>{x:,}\<close>: defined for numbers only.\<close>

definition py_format_comma :: "env \<Rightarrow> json \<Rightarrow> py_exc + string" where
  "py_format_comma env x =
     (case num_of x of Some n \<Rightarrow> Inr (format_comma_int n) | None \<Rightarrow> raise_fault env (BadFormat x))"

text \<open>\<^verbatim>\<open>{x}\<close> in an f-string, that is \<^verbatim>\<open>str(x)\<close>.\<close>

fun py_str :: "env \<Rightarrow> json \<Rightarrow> string" where
  "py_str env JNull = ''None''"
| "py_str env (JBool b) = (if b then ''True'' else ''False'')"
| "py_str env (JInt n) = str_int n"
| "py_str env (JStr s) = s"
| "py_str env x = repr_text env x"

subsection \<open>\<^verbatim>\<open>json.dumps(data, indent=2, ensure_ascii=False)\<close>\<close>

text \<open>The lower-case hexadecimal digit \<open>d\<close>, for \<open>d\<close> below 16.\<close>

definition hex_digit :: "nat \<Rightarrow> char" where
  "hex_digit d = ''0123456789abcdef'' ! d"

text \<open>
  With \<^verbatim>\<open>ensure_ascii=False\<close> the encoder escapes the quote, the backslash and the
  control characters below 32, and nothing else.
\<close>

definition escape_char :: "char \<Rightarrow> string" where
  "escape_char c =
     (if c = CHR 0x22 then [CHR 0x5C, CHR 0x22]
      else if c = CHR 0x5C then [CHR 0x5C, CHR 0x5C]
      else if c = CHR 0x0A then [CHR 0x5C, CHR ''n'']
      else if c = CHR 0x0D then [CHR 0x5C, CHR ''r'']
      else if c = CHR 0x09 then [CHR 0x5C, CHR ''t'']
      else if c = CHR 0x08 then [CHR 0x5C, CHR ''b'']
      else if c = CHR 0x0C then [CHR 0x5C, CHR ''f'']
      else if (of_char c :: nat) < 32
        then [CHR 0x5C, CHR ''u'', CHR ''0'', CHR ''0'',
              hex_digit (of_char c div 16), hex_digit (of_char c mod 16)]
      else [c])"

definition encode_basestring :: "string \<Rightarrow> string" where
  "encode_basestring s = CHR 0x22 # concat (map escape_char s) @ [CHR 0x22]"

definition newline_indent :: "nat \<Rightarrow> string" where
  "newline_indent lvl = CHR 0x0A # replicate (2 * lvl) CHR '' ''"

fun json_encode :: "nat \<Rightarrow> json \<Rightarrow> string"
  and encode_items :: "nat \<Rightarrow> json list \<Rightarrow> string list"
  and encode_members :: "nat \<Rightarrow> (string \<times> json) list \<Rightarrow> string list"
where
  "json_encode lvl JNull = ''null''"
| "json_encode lvl (JBool b) = (if b then ''true'' else ''false'')"
| "json_encode lvl (JInt n) = str_int n"
| "json_encode lvl (JStr s) = encode_basestring s"
| "json_encode lvl (JArr xs) =
     (if xs = [] then ''[]''
      else ''['' @ newline_indent (Suc lvl)
           @ str_join ('','' @ newline_indent (Suc lvl)) (encode_items (Suc lvl) xs)
           @ newline_indent lvl @ '']'')"
| "json_encode lvl (JObj kvs) =
     (if kvs = [] then ''{}''
      else ''{'' @ newline_indent (Suc lvl)
           @ str_join ('','' @ newline_indent (Suc lvl)) (encode_members (Suc lvl) kvs)
           @ newline_indent lvl @ ''}'')"
| "encode_items lvl [] = []"
| "encode_items lvl (x # xs) = json_encode lvl x # encode_items lvl xs"
| "encode_members lvl [] = []"
| "encode_members lvl (kv # kvs) =
     (encode_basestring (fst kv) @ '': '' @ json_encode lvl (snd kv)) # encode_members lvl kvs"

definition json_dumps :: "json \<Rightarrow> string" where
  "json_dumps data = json_encode 0 data"

subsection \<open>\<^verbatim>\<open>search_flights\<close>\<close>

text \<open>Line 18: the environment variable, or the production host.\<close>

definition BASE_URL :: "env \<Rightarrow> string" where
  "BASE_URL env = or_default (FLIGHT_API_BASE_URL env) ''https://www.onlinetour.co.kr''"

text \<open>Lines 50 to 113: the request of the single GET.\<close>

definition build_request :: "env \<Rightarrow> flight_args \<Rightarrow> http_request" where
  "build_request env a =
     \<lparr> url = str_rstrip CHR ''/'' (BASE_URL env) @ endpoint,
       query = params (time_ms env) a,
       req_headers = headers,
       timeout_s = 30 \<rparr>"

text \<open>\<^verbatim>\<open>response.raise_for_status()\<close>: every status outside 200 to 299 raises.\<close>

definition raise_for_status :: "env \<Rightarrow> http_response \<Rightarrow> py_exc + unit" where
  "raise_for_status env response =
     (if 200 \<le> status_code response \<and> status_code response \<le> 299 then Inr ()
      else Inl (HTTPError HTTPStatusError (status_error_text env response)))"

definition nl :: string where
  "nl = [CHR 0x0A]"

text \<open>Lines 151 to 157: the card discount text of one offer.\<close>

definition cheapest_event_text :: "env \<Rightarrow> json \<Rightarrow> json \<Rightarrow> py_exc + string" where
  "cheapest_event_text env item total_base_fare =
     then_do (dict_get env item ''EventFareList'' (JObj [])) (\<lambda>event_fare_list.
     then_do (dict_get env event_fare_list ''EventFare'' (JArr [])) (\<lambda>event_fares.
       if truthy event_fares then
         then_do (py_index0 env event_fares) (\<lambda>best_event.
         then_do (dict_get env best_event ''TotalSaleFare'' total_base_fare) (\<lambda>best_total.
         then_do (py_format_comma env best_total) (\<lambda>best_total_text.
         then_do (dict_get env best_event ''FareTypeDesc'' JNull) (\<lambda>fare_type_desc.
           Inr ('' (Card Discount: '' @ best_total_text @ '' KRW - ''
                @ py_str env fare_type_desc @ '')'')))))
       else Inr ''''))"

text \<open>Lines 140 to 168, the body of the loop: the text block of offer \<open>i\<close>.\<close>

definition format_offer :: "env \<Rightarrow> nat \<Rightarrow> json \<Rightarrow> py_exc + string" where
  "format_offer env i item =
     then_do (dict_get env item ''AirLineKor'' (JStr ''Unknown Airline'')) (\<lambda>airline.
     then_do (dict_get env item ''StartRoutine'' (JStr '''')) (\<lambda>start_routine.
     then_do (dict_get env item ''ReturnRoutine'' (JStr '''')) (\<lambda>return_routine.
     then_do (dict_get env item ''SaleFare'' (JInt 0)) (\<lambda>sale_fare.
     then_do (dict_get env item ''Tax'' (JInt 0)) (\<lambda>tax.
     then_do (dict_get env item ''Qcharge'' (JInt 0)) (\<lambda>q_charge.
     then_do (py_add env sale_fare tax) (\<lambda>fare_and_tax.
     then_do (py_add env fare_and_tax q_charge) (\<lambda>total_base_fare.
     then_do (cheapest_event_text env item total_base_fare) (\<lambda>cheapest_event.
     then_do (dict_get env item ''AdultBagInfo'' (JStr ''N/A'')) (\<lambda>baggage.
     then_do (py_format_comma env total_base_fare) (\<lambda>total_text.
     then_do (dict_get env item ''FareTypeDesc'' (JStr '''')) (\<lambda>fare_type_desc.
     then_do (dict_get env item ''FareFix'' (JStr '''')) (\<lambda>fare_fix.
       Inr (str_join nl
         [ ''['' @ str_nat (i + 1) @ ''] '' @ py_str env airline,
           ''   Route: '' @ py_str env start_routine @ '' / '' @ py_str env return_routine,
           ''   Price: '' @ total_text @ '' KRW'' @ cheapest_event,
           ''   Baggage: '' @ py_str env baggage,
           ''   Fare Type: '' @ py_str env fare_type_desc
             @ '' ('' @ py_str env fare_fix @ '')'' ]))))))))))))))"

text \<open>
  Lines 139 to 169, the loop: each offer appends its block and a rule of 30 dashes to
  \<open>results\<close>; an exception in one offer leaves the loop.
\<close>

fun offers_loop :: "env \<Rightarrow> nat \<Rightarrow> json list \<Rightarrow> string list \<Rightarrow> py_exc + string list" where
  "offers_loop env i [] results = Inr results"
| "offers_loop env i (item # items) results =
     then_do (format_offer env i item) (\<lambda>block.
       offers_loop env (Suc i) items (results @ [block, replicate 30 CHR ''-'']))"

text \<open>Lines 126 to 174: the digest of a parsed document.\<close>

definition summarize :: "env \<Rightarrow> json \<Rightarrow> py_exc + string" where
  "summarize env data =
     then_do (dict_get env data ''GoodsSummary'' (JObj [])) (\<lambda>summary_info.
     then_do (dict_get env summary_info ''errCnt'' JNull) (\<lambda>err_cnt.
       if err_cnt \<noteq> JStr ''OK'' then
         then_do (dict_get env summary_info ''errMsg'' (JStr ''Unknown error'')) (\<lambda>err_msg.
           Inr (''API Error: '' @ py_str env err_msg))
       else
         then_do (dict_get env data ''GoodsList'' (JObj [])) (\<lambda>goods_list.
         then_do (dict_get env goods_list ''Goods'' (JArr [])) (\<lambda>goods.
           if \<not> truthy goods then Inr ''No flights found for the given criteria.''
           else
             then_do (py_len env goods) (\<lambda>n.
             then_do (py_slice_to env 10 goods) (\<lambda>top.
             then_do (py_iter env top) (\<lambda>items.
             then_do (offers_loop env 0 items
                        [''Found '' @ str_nat n @ '' flight offers.'', replicate 50 CHR ''-''])
               (\<lambda>results.
                 Inr (str_join nl
                   (if n > 10
                    then results @ [''... and '' @ str_nat (n - 10) @ '' more results.'']
                    else results))))))))))"

text \<open>Lines 112 to 174: the body of the \<^verbatim>\<open>try\<close>.\<close>

definition try_block :: "env \<Rightarrow> flight_args \<Rightarrow> py_exc + string" where
  "try_block env a =
     (case client_get env (build_request env a) of
        Raises e \<Rightarrow> Inl e
      | Responds response \<Rightarrow>
          then_do (raise_for_status env response) (\<lambda>_.
            case json_body response of
              JSONDecodeError \<Rightarrow>
                Inr (''Error: API returned non-JSON response. Content start: ''
                     @ take 200 (body_text response))
            | ParseRaises e \<Rightarrow> Inl e
            | Parsed data \<Rightarrow>
                if raw_json a then Inr (json_dumps data) else summarize env data))"

text \<open>
  Lines 111 to 179: the two handlers. The result is \<open>Inr\<close> of the returned string, or
  \<open>Inl\<close> of an exception that leaves the function.
\<close>

definition search_flights :: "env \<Rightarrow> flight_args \<Rightarrow> py_exc + string" where
  "search_flights env a =
     (case try_block env a of
        Inr s \<Rightarrow> Inr s
      | Inl (HTTPError kind msg) \<Rightarrow> Inr (''Error fetching flight data: '' @ msg)
      | Inl (Exception msg) \<Rightarrow> Inr (''An unexpected error occurred: '' @ msg))"

text \<open>A call with some arguments omitted.\<close>

definition search_flights_call :: "env \<Rightarrow> tool_call \<Rightarrow> py_exc + string" where
  "search_flights_call env c = search_flights env (bind_arguments c)"

subsection \<open>Observations used in the statements\<close>

text \<open>
  The document the formatter receives: the upstream call returned a response with a
  status from 200 to 299 whose body parsed as JSON.
\<close>

definition upstream_document :: "env \<Rightarrow> flight_args \<Rightarrow> json option" where
  "upstream_document env a =
     (case client_get env (build_request env a) of
        Raises e \<Rightarrow> None
      | Responds response \<Rightarrow>
          if 200 \<le> status_code response \<and> status_code response \<le> 299
          then (case json_body response of Parsed data \<Rightarrow> Some data | _ \<Rightarrow> None)
          else None)"

text \<open>
  A fare component as the specification reads it: a missing one counts as 0, a number as
  itself (for Python a bool is the number 0 or 1), anything else is no number.
\<close>

definition fare_component :: "(string \<times> json) list \<Rightarrow> string \<Rightarrow> int option" where
  "fare_component offer k = (case map_of offer k of None \<Rightarrow> Some 0 | Some v \<Rightarrow> num_of v)"

text \<open>The characters of all strings of a document (keys and values), in document order.\<close>

fun json_text :: "json \<Rightarrow> string"
  and items_text :: "json list \<Rightarrow> string"
  and members_text :: "(string \<times> json) list \<Rightarrow> string"
where
  "json_text JNull = []"
| "json_text (JBool b) = []"
| "json_text (JInt n) = []"
| "json_text (JStr s) = s"
| "json_text (JArr xs) = items_text xs"
| "json_text (JObj kvs) = members_text kvs"
| "items_text [] = []"
| "items_text (x # xs) = json_text x @ items_text xs"
| "members_text [] = []"
| "members_text (kv # kvs) = fst kv @ json_text (snd kv) @ members_text kvs"

definition non_ascii :: "char \<Rightarrow> bool" where
  "non_ascii c = (128 \<le> (of_char c :: nat))"

subsection \<open>Sample inputs\<close>

text \<open>The call that names no argument, and a one-way call that names the trip type only.\<close>

definition no_arguments :: tool_call where
  "no_arguments =
     \<lparr> call_trip_type = None, call_departure_city = None, call_arrival_city = None,
       call_departure_date = None, call_return_date = None, call_adults = None,
       call_children = None, call_infants = None, call_seat_class = None,
       call_raw_json = None \<rparr>"

definition one_way_call :: tool_call where
  "one_way_call = no_arguments \<lparr> call_trip_type := Some ''OW'' \<rparr>"

text \<open>
  An environment whose upstream call has the given outcome, whatever the request, and a
  response with status 200 whose body parses to the given document.
\<close>

definition sample_env :: "get_outcome \<Rightarrow> env" where
  "sample_env outcome =
     \<lparr> FLIGHT_API_BASE_URL = None,
       time_ms = 1770000000000,
       client_get = (\<lambda>request. outcome),
       fault_text = (\<lambda>f. ''fault''),
       status_error_text = (\<lambda>response. ''status '' @ str_int (status_code response)),
       repr_text = (\<lambda>x. ''?'') \<rparr>"

definition ok_response :: "json \<Rightarrow> http_response" where
  "ok_response data = \<lparr> status_code = 200, body_text = '''', json_body = Parsed data \<rparr>"

definition document_env :: "json \<Rightarrow> env" where
  "document_env data = sample_env (Responds (ok_response data))"

definition default_args :: flight_args where
  "default_args = bind_arguments no_arguments"

text \<open>Documents: an upstream error, a success without offers, a document without summary.\<close>

definition error_document :: json where
  "error_document =
     JObj [(''GoodsSummary'', JObj [(''errCnt'', JStr ''1''), (''errMsg'', JStr ''No fares found'')])]"

definition empty_document :: json where
  "empty_document =
     JObj [(''GoodsSummary'', JObj [(''errCnt'', JStr ''OK'')]),
           (''GoodsList'', JObj [(''Goods'', JArr [])])]"

definition bare_document :: json where
  "bare_document = JObj [(''GoodsList'', JObj [(''Goods'', JArr [JObj []])])]"

text \<open>
  An offer with the fares 500000, 50000 and 10000 and nothing else; fifteen offers, the
  \<open>k\<close>-th with the sale fare \<open>k\<close> and nothing else, with the text block of each; a
  document with a non-ASCII character.
\<close>

definition sample_offer :: "(string \<times> json) list" where
  "sample_offer = [(''SaleFare'', JInt 500000), (''Tax'', JInt 50000), (''Qcharge'', JInt 10000)]"

definition fifteen_offers :: "json list" where
  "fifteen_offers = map (\<lambda>k. JObj [(''SaleFare'', JInt (int k))]) [0..<15]"

definition fifteen_document :: json where
  "fifteen_document =
     JObj [(''GoodsSummary'', JObj [(''errCnt'', JStr ''OK'')]),
           (''GoodsList'', JObj [(''Goods'', JArr fifteen_offers)])]"

definition sample_block :: "nat \<Rightarrow> string" where
  "sample_block k =
     str_join nl
       [ ''['' @ str_nat (k + 1) @ ''] Unknown Airline'',
         ''   Route:  / '',
         ''   Price: '' @ format_comma_int (int k) @ '' KRW'',
         ''   Baggage: N/A'',
         ''   Fare Type:  ()'' ]"

definition accented_document :: json where
  "accented_document = JObj [(''city'', JStr [CHR ''O'', CHR ''s'', CHR ''l'', CHR 0xF8]), (''n'', JArr [JInt 1])]"

section \<open>Properties\<close>

subsection \<open>Helper lemmas\<close>

lemma then_do_Inr [simp]: "then_do (Inr x) f = f x"
  by (simp add: then_do_def)

lemma then_do_Inl [simp]: "then_do (Inl e) f = Inl e"
  by (simp add: then_do_def)

lemma dict_get_obj [simp]:
  "dict_get env (JObj kvs) k d = Inr (case map_of kvs k of None \<Rightarrow> d | Some v \<Rightarrow> v)"
  by (simp add: dict_get_def)

lemma str_replace_empty_filter: "str_replace_empty c s = filter (\<lambda>x. x \<noteq> c) s"
  by (induction s) auto

lemma try_block_document:
  "upstream_document env a = Some data \<Longrightarrow>
   try_block env a = (if raw_json a then Inr (json_dumps data) else summarize env data)"
  by (auto simp: upstream_document_def try_block_def raise_for_status_def
           split: get_outcome.splits json_parse.splits if_splits)

lemmas eval_numbers =
  str_int_def str_nat.simps format_comma_int_def group_nat.simps pad3_def digit_char_def

lemmas eval_call = bind_arguments_def no_arguments_def one_way_call_def or_default_def

subsection \<open>Request builder\<close>

text \<open>
  C7. The date tokens sent upstream are the dates with every hyphen deleted, character by
  character: \<open>startDt\<close> from the departure date, \<open>endDt\<close> from a return date that is
  given. For a date of the form year-month-day whose three parts hold no hyphen, the token
  is the three parts put together, so \<open>2026-03-03\<close> gives \<open>20260303\<close>.
\<close>

theorem date_tokens_strip_hyphens:
  "param now a ''startDt'' = Some (QStr (filter (\<lambda>c. c \<noteq> CHR ''-'') (departure_date a)))
   \<and> (\<forall>r. return_date a = Some r \<longrightarrow>
          param now a ''endDt'' = Some (QStr (filter (\<lambda>c. c \<noteq> CHR ''-'') r)))
   \<and> (\<forall>y m d. CHR ''-'' \<notin> set (y @ m @ d) \<and> departure_date a = y @ ''-'' @ m @ ''-'' @ d \<longrightarrow>
          param now a ''startDt'' = Some (QStr (y @ m @ d)))
   \<and> (\<forall>y m d. CHR ''-'' \<notin> set (y @ m @ d) \<and> return_date a = Some (y @ ''-'' @ m @ ''-'' @ d) \<longrightarrow>
          param now a ''endDt'' = Some (QStr (y @ m @ d)))"
proof -
  have strip: "filter (\<lambda>c. c \<noteq> CHR ''-'') (y @ ''-'' @ m @ ''-'' @ d) = y @ m @ d"
    if "CHR ''-'' \<notin> set (y @ m @ d)" for y m d :: string
  proof -
    have "filter (\<lambda>c. c \<noteq> CHR ''-'') y = y" "filter (\<lambda>c. c \<noteq> CHR ''-'') m = m"
      "filter (\<lambda>c. c \<noteq> CHR ''-'') d = d"
      using that by (auto simp: filter_id_conv)
    then show ?thesis by simp
  qed
  have start: "param now a ''startDt'' = Some (QStr (filter (\<lambda>c. c \<noteq> CHR ''-'') (departure_date a)))"
    by (simp add: param_def params_def s_dt_def str_replace_empty_filter)
  have end_dt: "param now a ''endDt'' = Some (QStr (filter (\<lambda>c. c \<noteq> CHR ''-'') r))"
    if "return_date a = Some r" for r
    using that by (simp add: param_def params_def e_dt_def str_replace_empty_filter)
  show ?thesis
    using start end_dt strip by metis
qed

theorem date_tokens_strip_hyphens_witness:
  "departure_date (bind_arguments no_arguments) = ''2026'' @ ''-'' @ ''03'' @ ''-'' @ ''03''
   \<and> return_date (bind_arguments no_arguments) = Some (''2026'' @ ''-'' @ ''03'' @ ''-'' @ ''09'')
   \<and> CHR ''-'' \<notin> set (''2026'' @ ''03'' @ ''03'') \<and> CHR ''-'' \<notin> set (''2026'' @ ''03'' @ ''09'')
   \<and> param 1770000000000 (bind_arguments no_arguments) ''startDt'' = Some (QStr ''20260303'')
   \<and> param 1770000000000 (bind_arguments no_arguments) ''endDt'' = Some (QStr ''20260309'')"
proof -
  let ?a = "bind_arguments no_arguments"
  have dep: "departure_date ?a = ''2026'' @ ''-'' @ ''03'' @ ''-'' @ ''03''"
    and ret: "return_date ?a = Some (''2026'' @ ''-'' @ ''03'' @ ''-'' @ ''09'')"
    by (simp_all add: eval_call)
  have free: "CHR ''-'' \<notin> set (''2026'' @ ''03'' @ ''03'')" "CHR ''-'' \<notin> set (''2026'' @ ''03'' @ ''09'')"
    by simp_all
  from date_tokens_strip_hyphens [of 1770000000000 ?a] dep ret free
  have "param 1770000000000 ?a ''startDt'' = Some (QStr (''2026'' @ ''03'' @ ''03''))"
    and "param 1770000000000 ?a ''endDt'' = Some (QStr (''2026'' @ ''03'' @ ''09''))"
    by blast+
  with dep ret free show ?thesis by simp
qed

text \<open>
  C8. For a round trip (\<open>RT\<close>) the return-leg fields are the two airport codes swapped:
  \<open>sCity2\<close> is the arrival city and \<open>eCity2\<close> the departure city. For a one-way trip
  (\<open>OW\<close>), as for every trip type other than \<open>RT\<close>, both are the empty string.
\<close>

theorem return_leg_cities:
  "(trip_type a = ''RT'' \<longrightarrow>
      param now a ''sCity2'' = Some (QStr (arrival_city a))
      \<and> param now a ''eCity2'' = Some (QStr (departure_city a)))
   \<and> (trip_type a = ''OW'' \<or> trip_type a \<noteq> ''RT'' \<longrightarrow>
      param now a ''sCity2'' = Some (QStr '''') \<and> param now a ''eCity2'' = Some (QStr ''''))"
  by (auto simp add: param_def params_def)

theorem return_leg_cities_witness:
  "trip_type (bind_arguments no_arguments) = ''RT''
   \<and> param 1770000000000 (bind_arguments no_arguments) ''sCity2'' = Some (QStr ''FUK'')
   \<and> param 1770000000000 (bind_arguments no_arguments) ''eCity2'' = Some (QStr ''ICN'')
   \<and> trip_type (bind_arguments one_way_call) = ''OW''
   \<and> param 1770000000000 (bind_arguments one_way_call) ''sCity2'' = Some (QStr '''')
   \<and> param 1770000000000 (bind_arguments one_way_call) ''eCity2'' = Some (QStr '''')"
  using return_leg_cities [of "bind_arguments no_arguments" 1770000000000]
    return_leg_cities [of "bind_arguments one_way_call" 1770000000000]
  by (simp add: eval_call)

text \<open>
  C2, as stated, fails: a caller that omits the return date gets the default of the
  signature, \<open>2026-03-09\<close>, and \<open>endDt\<close> is \<open>20260309\<close>. Here a one-way call that
  names the trip type only.
\<close>

theorem omitted_return_date_counterexample:
  "call_return_date one_way_call = None
   \<and> param 1770000000000 (bind_arguments one_way_call) ''endDt'' = Some (QStr ''20260309'')
   \<and> param 1770000000000 (bind_arguments one_way_call) ''endDt'' \<noteq> Some (QStr '''')"
  by (simp add: eval_call param_def params_def e_dt_def)

text \<open>
  C2, amended. For every trip type: when the return date that reaches the function is
  \<open>None\<close> or the empty string (the caller passes it so), \<open>endDt\<close> is the empty string;
  when the caller omits the argument, the default \<open>2026-03-09\<close> applies and \<open>endDt\<close>
  is \<open>20260309\<close>.
\<close>

theorem absent_return_date:
  "(return_date a = None \<or> return_date a = Some '''' \<longrightarrow>
      param now a ''endDt'' = Some (QStr ''''))
   \<and> (call_return_date c = Some None \<or> call_return_date c = Some (Some '''') \<longrightarrow>
      param now (bind_arguments c) ''endDt'' = Some (QStr ''''))
   \<and> (call_return_date c = None \<longrightarrow>
      param now (bind_arguments c) ''endDt'' = Some (QStr ''20260309''))"
  by (auto simp add: param_def params_def e_dt_def bind_arguments_def or_default_def)

theorem absent_return_date_witness:
  "call_return_date (one_way_call \<lparr> call_return_date := Some None \<rparr>) = Some None
   \<and> return_date (bind_arguments (one_way_call \<lparr> call_return_date := Some None \<rparr>)) = None
   \<and> param 1770000000000 (bind_arguments (one_way_call \<lparr> call_return_date := Some None \<rparr>))
        ''endDt'' = Some (QStr '''')
   \<and> call_return_date no_arguments = None
   \<and> param 1770000000000 (bind_arguments no_arguments) ''endDt'' = Some (QStr ''20260309'')"
  using absent_return_date [of "bind_arguments (one_way_call \<lparr> call_return_date := Some None \<rparr>)"
      1770000000000 "one_way_call \<lparr> call_return_date := Some None \<rparr>"]
    absent_return_date [of "bind_arguments no_arguments" 1770000000000 no_arguments]
  by (simp add: eval_call)

subsection \<open>Failure paths\<close>

lemma search_flights_returns: "try_block env a = Inr s \<Longrightarrow> search_flights env a = Inr s"
  by (simp add: search_flights_def)

lemma search_flights_document:
  "upstream_document env a = Some data \<Longrightarrow> \<not> raw_json a \<Longrightarrow> summarize env data = Inr s \<Longrightarrow>
   search_flights env a = Inr s"
  by (simp add: search_flights_returns try_block_document)

lemmas eval_env =
  sample_env_def ok_response_def document_env_def default_args_def upstream_document_def

text \<open>
  C1. Whatever the arguments and whatever the upstream call does, \<open>search_flights\<close>
  returns a string and no exception leaves it. A transport error (a timeout, a connection
  failure) and a status outside 200 to 299 give a string that starts with
  \<open>Error fetching flight data: \<close>; a body that is not JSON gives a string that starts
  with \<open>Error: API returned non-JSON response.\<close> and holds the first 200 characters of
  the body; every other exception of the flow gives a string that starts with
  \<open>An unexpected error occurred: \<close>.
\<close>

theorem search_flights_never_raises:
  "(\<exists>s. search_flights env a = Inr s)
   \<and> (\<forall>kind msg. client_get env (build_request env a) = Raises (HTTPError kind msg) \<longrightarrow>
         search_flights env a = Inr (''Error fetching flight data: '' @ msg))
   \<and> (\<forall>r. client_get env (build_request env a) = Responds r
           \<and> \<not> (200 \<le> status_code r \<and> status_code r \<le> 299) \<longrightarrow>
         search_flights env a = Inr (''Error fetching flight data: '' @ status_error_text env r))
   \<and> (\<forall>r. client_get env (build_request env a) = Responds r
           \<and> 200 \<le> status_code r \<and> status_code r \<le> 299 \<and> json_body r = JSONDecodeError \<longrightarrow>
         search_flights env a =
           Inr (''Error: API returned non-JSON response. Content start: '' @ take 200 (body_text r)))
   \<and> (\<forall>msg. try_block env a = Inl (Exception msg) \<longrightarrow>
         search_flights env a = Inr (''An unexpected error occurred: '' @ msg))"
proof -
  have total: "\<exists>s. search_flights env a = Inr s"
  proof (cases "try_block env a")
    case (Inl e)
    then show ?thesis by (cases e) (simp_all add: search_flights_def)
  next
    case (Inr s)
    then show ?thesis by (simp add: search_flights_def)
  qed
  have transport: "search_flights env a = Inr (''Error fetching flight data: '' @ msg)"
    if "client_get env (build_request env a) = Raises (HTTPError kind msg)" for kind msg
    using that by (simp add: search_flights_def try_block_def)
  have status: "search_flights env a = Inr (''Error fetching flight data: '' @ status_error_text env r)"
    if "client_get env (build_request env a) = Responds r"
      "\<not> (200 \<le> status_code r \<and> status_code r \<le> 299)" for r
    using that by (auto simp add: search_flights_def try_block_def raise_for_status_def)
  have body: "search_flights env a =
      Inr (''Error: API returned non-JSON response. Content start: '' @ take 200 (body_text r))"
    if "client_get env (build_request env a) = Responds r"
      "200 \<le> status_code r" "status_code r \<le> 299" "json_body r = JSONDecodeError" for r
    using that by (simp add: search_flights_def try_block_def raise_for_status_def)
  have other: "search_flights env a = Inr (''An unexpected error occurred: '' @ msg)"
    if "try_block env a = Inl (Exception msg)" for msg
    using that by (simp add: search_flights_def)
  show ?thesis
    using total transport status body other by blast
qed

theorem search_flights_never_raises_witness:
  "search_flights (sample_env (Raises (HTTPError TimeoutException ''timed out''))) default_args =
     Inr ''Error fetching flight data: timed out''
   \<and> search_flights
        (sample_env (Responds \<lparr> status_code = 503, body_text = ''busy'', json_body = JSONDecodeError \<rparr>))
        default_args =
     Inr ''Error fetching flight data: status 503''
   \<and> search_flights
        (sample_env (Responds \<lparr> status_code = 200, body_text = ''<html>'', json_body = JSONDecodeError \<rparr>))
        default_args =
     Inr ''Error: API returned non-JSON response. Content start: <html>''
   \<and> try_block (document_env JNull) default_args = Inl (Exception ''fault'')
   \<and> search_flights (document_env JNull) default_args = Inr ''An unexpected error occurred: fault''"
proof -
  let ?timeout = "sample_env (Raises (HTTPError TimeoutException ''timed out''))"
  let ?busy = "\<lparr> status_code = 503, body_text = ''busy'', json_body = JSONDecodeError \<rparr>"
  let ?html = "\<lparr> status_code = 200, body_text = ''<html>'', json_body = JSONDecodeError \<rparr>"
  have h1: "client_get ?timeout (build_request ?timeout default_args) =
      Raises (HTTPError TimeoutException ''timed out'')"
    by (simp add: sample_env_def)
  have h2: "client_get (sample_env (Responds ?busy)) (build_request (sample_env (Responds ?busy)) default_args)
      = Responds ?busy \<and> \<not> (200 \<le> status_code ?busy \<and> status_code ?busy \<le> 299)"
    by (simp add: sample_env_def)
  have h3: "client_get (sample_env (Responds ?html)) (build_request (sample_env (Responds ?html)) default_args)
      = Responds ?html \<and> 200 \<le> status_code ?html \<and> status_code ?html \<le> 299
        \<and> json_body ?html = JSONDecodeError"
    by (simp add: sample_env_def)
  have h4: "try_block (document_env JNull) default_args = Inl (Exception ''fault'')"
    by (simp add: try_block_def raise_for_status_def summarize_def dict_get_def raise_fault_def
        eval_env eval_call)
  have c1: "search_flights ?timeout default_args = Inr (''Error fetching flight data: '' @ ''timed out'')"
    using search_flights_never_raises [of ?timeout default_args] h1 by blast
  have c2: "search_flights (sample_env (Responds ?busy)) default_args =
      Inr (''Error fetching flight data: '' @ status_error_text (sample_env (Responds ?busy)) ?busy)"
    using search_flights_never_raises [of "sample_env (Responds ?busy)" default_args] h2 by blast
  have c3: "search_flights (sample_env (Responds ?html)) default_args =
      Inr (''Error: API returned non-JSON response. Content start: '' @ take 200 (body_text ?html))"
    using search_flights_never_raises [of "sample_env (Responds ?html)" default_args] h3 by blast
  have c4: "search_flights (document_env JNull) default_args =
      Inr (''An unexpected error occurred: '' @ ''fault'')"
    using search_flights_never_raises [of "document_env JNull" default_args] h4 by blast
  have "status_error_text (sample_env (Responds ?busy)) ?busy = ''status 503''"
    by (simp add: sample_env_def eval_numbers)
  with c1 c2 c3 c4 h4 show ?thesis by simp
qed

subsection \<open>Upstream errors and empty results\<close>

text \<open>
  C10. When the parsed document is a JSON object with no \<open>GoodsSummary\<close> key and raw
  output is not asked for, the result is exactly \<open>API Error: Unknown error\<close>: the missing
  summary is an upstream error, not a success and not the empty result, whatever else the
  document holds.
\<close>

theorem missing_summary_block:
  "upstream_document env a = Some (JObj doc) \<and> \<not> raw_json a \<and> map_of doc ''GoodsSummary'' = None
   \<longrightarrow> search_flights env a = Inr ''API Error: Unknown error''"
  by (auto intro!: search_flights_document simp: summarize_def)

theorem missing_summary_block_witness:
  "upstream_document (document_env bare_document) default_args = Some bare_document
   \<and> \<not> raw_json default_args
   \<and> search_flights (document_env bare_document) default_args = Inr ''API Error: Unknown error''"
proof -
  let ?doc = "[(''GoodsList'', JObj [(''Goods'', JArr [JObj []])])]"
  have "upstream_document (document_env bare_document) default_args = Some (JObj ?doc)
      \<and> \<not> raw_json default_args \<and> map_of ?doc ''GoodsSummary'' = None"
    by (simp add: eval_env eval_call bare_document_def)
  with missing_summary_block [of "document_env bare_document" default_args ?doc]
  show ?thesis by (simp add: bare_document_def)
qed

text \<open>
  C5. When the parsed document is a JSON object whose summary block is an object with an
  \<open>errCnt\<close> other than the string \<open>OK\<close> or with none (a document without summary
  block counts as one with an empty summary), and raw output is not asked for, the result
  is \<open>API Error: \<close> followed by the text of \<open>errMsg\<close>, or by
  \<open>Unknown error\<close> when the summary has no \<open>errMsg\<close>. With the message
  \<open>No fares found\<close> the result is exactly \<open>API Error: No fares found\<close>.
\<close>

theorem upstream_business_error:
  "upstream_document env a = Some (JObj doc) \<and> \<not> raw_json a
   \<and> (map_of doc ''GoodsSummary'' = Some (JObj summary)
      \<or> map_of doc ''GoodsSummary'' = None \<and> summary = [])
   \<and> map_of summary ''errCnt'' \<noteq> Some (JStr ''OK'')
   \<longrightarrow> search_flights env a =
         Inr (''API Error: '' @ (case map_of summary ''errMsg'' of
                                   None \<Rightarrow> ''Unknown error'' | Some m \<Rightarrow> py_str env m))
       \<and> (map_of summary ''errMsg'' = Some (JStr ''No fares found'') \<longrightarrow>
            search_flights env a = Inr ''API Error: No fares found'')"
  by (auto intro!: search_flights_document simp: summarize_def split: option.splits)

theorem upstream_business_error_witness:
  "upstream_document (document_env error_document) default_args = Some error_document
   \<and> \<not> raw_json default_args
   \<and> search_flights (document_env error_document) default_args = Inr ''API Error: No fares found''"
proof -
  let ?summary = "[(''errCnt'', JStr ''1''), (''errMsg'', JStr ''No fares found'')]"
  let ?doc = "[(''GoodsSummary'', JObj ?summary)]"
  have "upstream_document (document_env error_document) default_args = Some (JObj ?doc)
      \<and> \<not> raw_json default_args \<and> map_of ?doc ''GoodsSummary'' = Some (JObj ?summary)
      \<and> map_of ?summary ''errCnt'' \<noteq> Some (JStr ''OK'')
      \<and> map_of ?summary ''errMsg'' = Some (JStr ''No fares found'')"
    by (simp add: eval_env eval_call error_document_def)
  with upstream_business_error [of "document_env error_document" default_args ?doc ?summary]
  show ?thesis by (simp add: error_document_def)
qed

text \<open>
  C6. When the parsed document is a JSON object whose summary block has \<open>errCnt\<close> equal
  to \<open>OK\<close>, raw output is not asked for, and the offer list is absent (no \<open>GoodsList\<close>,
  or a \<open>GoodsList\<close> object with no \<open>Goods\<close>) or empty, the result is exactly
  \<open>No flights found for the given criteria.\<close>
\<close>

theorem no_offers:
  "upstream_document env a = Some (JObj doc) \<and> \<not> raw_json a
   \<and> map_of doc ''GoodsSummary'' = Some (JObj summary)
   \<and> map_of summary ''errCnt'' = Some (JStr ''OK'')
   \<and> (map_of doc ''GoodsList'' = None
      \<or> (\<exists>goods_list. map_of doc ''GoodsList'' = Some (JObj goods_list)
            \<and> (map_of goods_list ''Goods'' = None \<or> map_of goods_list ''Goods'' = Some (JArr []))))
   \<longrightarrow> search_flights env a = Inr ''No flights found for the given criteria.''"
  by (auto intro!: search_flights_document simp: summarize_def split: option.splits)

theorem no_offers_witness:
  "upstream_document (document_env empty_document) default_args = Some empty_document
   \<and> \<not> raw_json default_args
   \<and> search_flights (document_env empty_document) default_args =
       Inr ''No flights found for the given criteria.''"
proof -
  let ?summary = "[(''errCnt'', JStr ''OK'')]"
  let ?goods_list = "[(''Goods'', JArr [])]"
  let ?doc = "[(''GoodsSummary'', JObj ?summary), (''GoodsList'', JObj ?goods_list)]"
  have "upstream_document (document_env empty_document) default_args = Some (JObj ?doc)
      \<and> \<not> raw_json default_args \<and> map_of ?doc ''GoodsSummary'' = Some (JObj ?summary)
      \<and> map_of ?summary ''errCnt'' = Some (JStr ''OK'')
      \<and> map_of ?doc ''GoodsList'' = Some (JObj ?goods_list)
      \<and> map_of ?goods_list ''Goods'' = Some (JArr [])"
    by (simp add: eval_env eval_call empty_document_def)
  with no_offers [of "document_env empty_document" default_args ?doc ?summary]
  show ?thesis by (auto simp add: empty_document_def)
qed

subsection \<open>The digest of the offers\<close>

lemma then_do_eq_Inr: "then_do m f = Inr y \<longleftrightarrow> (\<exists>x. m = Inr x \<and> f x = Inr y)"
  by (cases m) simp_all

lemma dict_get_eq_Inr: "dict_get env obj k d = Inr v \<Longrightarrow> \<exists>kvs. obj = JObj kvs"
  by (cases obj) (simp_all add: dict_get_def raise_fault_def)

lemma py_add_num:
  "num_of x = Some m \<Longrightarrow> num_of y = Some n \<Longrightarrow> py_add env x y = Inr (JInt (m + n))"
  by (simp add: py_add_def)

lemma py_add_numeric_result:
  "py_add env x y = Inr z \<Longrightarrow> num_of z = Some n \<Longrightarrow>
   \<exists>a b. num_of x = Some a \<and> num_of y = Some b \<and> n = a + b"
  by (auto simp: py_add_def raise_fault_def split: option.splits json.splits)

lemma py_format_comma_eq_Inr:
  "py_format_comma env x = Inr s \<longleftrightarrow> (\<exists>n. num_of x = Some n \<and> s = format_comma_int n)"
  by (auto simp: py_format_comma_def raise_fault_def split: option.splits)

lemma fare_component_get:
  "fare_component offer k = Some n \<longleftrightarrow>
   num_of (case map_of offer k of None \<Rightarrow> JInt 0 | Some v \<Rightarrow> v) = Some n"
  by (auto simp: fare_component_def split: option.splits)

lemma cheapest_event_absent:
  "map_of offer ''EventFareList'' = None \<Longrightarrow> cheapest_event_text env (JObj offer) fare = Inr ''''"
  by (simp add: cheapest_event_text_def)

lemma format_offer_numeric:
  assumes "num_of (case map_of offer ''SaleFare'' of None \<Rightarrow> JInt 0 | Some v \<Rightarrow> v) = Some s"
    and "num_of (case map_of offer ''Tax'' of None \<Rightarrow> JInt 0 | Some v \<Rightarrow> v) = Some t"
    and "num_of (case map_of offer ''Qcharge'' of None \<Rightarrow> JInt 0 | Some v \<Rightarrow> v) = Some q"
    and "cheapest_event_text env (JObj offer) (JInt (s + t + q)) = Inr discount"
  shows "format_offer env i (JObj offer) =
        Inr (str_join nl
          [ ''['' @ str_nat (i + 1) @ ''] ''
              @ py_str env (case map_of offer ''AirLineKor'' of
                              None \<Rightarrow> JStr ''Unknown Airline'' | Some v \<Rightarrow> v),
            ''   Route: ''
              @ py_str env (case map_of offer ''StartRoutine'' of None \<Rightarrow> JStr '''' | Some v \<Rightarrow> v)
              @ '' / ''
              @ py_str env (case map_of offer ''ReturnRoutine'' of None \<Rightarrow> JStr '''' | Some v \<Rightarrow> v),
            ''   Price: '' @ format_comma_int (s + t + q) @ '' KRW'' @ discount,
            ''   Baggage: ''
              @ py_str env (case map_of offer ''AdultBagInfo'' of None \<Rightarrow> JStr ''N/A'' | Some v \<Rightarrow> v),
            ''   Fare Type: ''
              @ py_str env (case map_of offer ''FareTypeDesc'' of None \<Rightarrow> JStr '''' | Some v \<Rightarrow> v)
              @ '' (''
              @ py_str env (case map_of offer ''FareFix'' of None \<Rightarrow> JStr '''' | Some v \<Rightarrow> v)
              @ '')'' ])"
  using assms by (simp add: format_offer_def py_add_num py_format_comma_def)

lemma format_offer_rendered:
  assumes "format_offer env i item = Inr block"
  shows "\<exists>offer s t q discount.
           item = JObj offer
           \<and> fare_component offer ''SaleFare'' = Some s \<and> fare_component offer ''Tax'' = Some t
           \<and> fare_component offer ''Qcharge'' = Some q
           \<and> cheapest_event_text env item (JInt (s + t + q)) = Inr discount"
proof -
  from assms obtain offer where item: "item = JObj offer"
    unfolding format_offer_def then_do_eq_Inr using dict_get_eq_Inr by blast
  let ?get = "\<lambda>k. case map_of offer k of None \<Rightarrow> JInt 0 | Some v \<Rightarrow> v"
  from assms item obtain fare_and_tax total_base_fare discount total_text where
    add1: "py_add env (?get ''SaleFare'') (?get ''Tax'') = Inr fare_and_tax"
    and add2: "py_add env fare_and_tax (?get ''Qcharge'') = Inr total_base_fare"
    and ev: "cheapest_event_text env item total_base_fare = Inr discount"
    and fmt: "py_format_comma env total_base_fare = Inr total_text"
    unfolding format_offer_def by (auto simp: then_do_eq_Inr)
  from fmt obtain n where n: "num_of total_base_fare = Some n"
    by (auto simp: py_format_comma_eq_Inr)
  from py_add_numeric_result [OF add2 n] obtain m q where
    m: "num_of fare_and_tax = Some m" and q: "num_of (?get ''Qcharge'') = Some q"
    by blast
  from py_add_numeric_result [OF add1 m] obtain s t where
    s: "num_of (?get ''SaleFare'') = Some s" and t: "num_of (?get ''Tax'') = Some t"
    by blast
  have "fare_and_tax = JInt (s + t)"
    using add1 s t by (simp add: py_add_num)
  then have "total_base_fare = JInt (s + t + q)"
    using add2 q by (simp add: py_add_num)
  with item s t q ev show ?thesis
    by (auto simp: fare_component_get)
qed

text \<open>
  C4. An offer whose three fare components are numbers or missing, and whose discount part
  renders, is shown as five lines, the third being \<open>   Price: \<close>, the sum of sale fare,
  tax and surcharge (a missing component counting as 0) with thousands separators, then
  \<open> KRW\<close> and the discount text, which is empty when the offer has no discount list.
  Every offer that is shown at all is of this kind: a block is produced only for a JSON
  object whose three components are numbers or missing. The sum of 500000, 50000 and 10000
  is written \<open>560,000\<close>.
\<close>

theorem total_base_fare_displayed:
  "(fare_component offer ''SaleFare'' = Some s \<and> fare_component offer ''Tax'' = Some t
    \<and> fare_component offer ''Qcharge'' = Some q
    \<and> cheapest_event_text env (JObj offer) (JInt (s + t + q)) = Inr discount
    \<longrightarrow> (\<exists>title route baggage fare_type.
           format_offer env i (JObj offer) =
             Inr (str_join nl
               [title, route, ''   Price: '' @ format_comma_int (s + t + q) @ '' KRW'' @ discount,
                baggage, fare_type]))
        \<and> (map_of offer ''EventFareList'' = None \<longrightarrow> discount = ''''))
   \<and> (format_offer env i item = Inr block
    \<longrightarrow> (\<exists>shown s' t' q' discount'.
           item = JObj shown
           \<and> fare_component shown ''SaleFare'' = Some s' \<and> fare_component shown ''Tax'' = Some t'
           \<and> fare_component shown ''Qcharge'' = Some q'
           \<and> cheapest_event_text env item (JInt (s' + t' + q')) = Inr discount'))
   \<and> format_comma_int (500000 + 50000 + 10000) = ''560,000''"
proof (intro conjI impI)
  assume h: "fare_component offer ''SaleFare'' = Some s \<and> fare_component offer ''Tax'' = Some t
    \<and> fare_component offer ''Qcharge'' = Some q
    \<and> cheapest_event_text env (JObj offer) (JInt (s + t + q)) = Inr discount"
  from h show "\<exists>title route baggage fare_type.
      format_offer env i (JObj offer) =
        Inr (str_join nl
          [title, route, ''   Price: '' @ format_comma_int (s + t + q) @ '' KRW'' @ discount,
           baggage, fare_type])"
    using format_offer_numeric [of offer s t q env discount i]
    unfolding fare_component_get by blast
  show "discount = ''''" if "map_of offer ''EventFareList'' = None"
    using h that by (simp add: cheapest_event_absent)
next
  assume "format_offer env i item = Inr block"
  then show "\<exists>shown s' t' q' discount'.
      item = JObj shown
      \<and> fare_component shown ''SaleFare'' = Some s' \<and> fare_component shown ''Tax'' = Some t'
      \<and> fare_component shown ''Qcharge'' = Some q'
      \<and> cheapest_event_text env item (JInt (s' + t' + q')) = Inr discount'"
    by (rule format_offer_rendered)
next
  show "format_comma_int (500000 + 50000 + 10000) = ''560,000''"
    by (simp add: eval_numbers)
qed

theorem total_base_fare_displayed_witness:
  "fare_component sample_offer ''SaleFare'' = Some 500000
   \<and> fare_component sample_offer ''Tax'' = Some 50000
   \<and> fare_component sample_offer ''Qcharge'' = Some 10000
   \<and> map_of sample_offer ''EventFareList'' = None
   \<and> cheapest_event_text (document_env JNull) (JObj sample_offer) (JInt (500000 + 50000 + 10000)) = Inr ''''
   \<and> (\<exists>title route baggage fare_type.
        format_offer (document_env JNull) 0 (JObj sample_offer) =
          Inr (str_join nl [title, route, ''   Price: 560,000 KRW'', baggage, fare_type]))"
proof -
  let ?env = "document_env JNull"
  have comps: "fare_component sample_offer ''SaleFare'' = Some 500000
      \<and> fare_component sample_offer ''Tax'' = Some 50000
      \<and> fare_component sample_offer ''Qcharge'' = Some 10000"
    by (simp add: fare_component_def sample_offer_def)
  have none: "map_of sample_offer ''EventFareList'' = None"
    by (simp add: sample_offer_def)
  have ev: "cheapest_event_text ?env (JObj sample_offer) (JInt (500000 + 50000 + 10000)) = Inr ''''"
    using none by (simp add: cheapest_event_text_def)
  from total_base_fare_displayed [of sample_offer 500000 50000 10000 ?env "''''" 0] comps ev
  have "\<exists>title route baggage fare_type.
      format_offer ?env 0 (JObj sample_offer) =
        Inr (str_join nl
          [title, route, ''   Price: '' @ format_comma_int (500000 + 50000 + 10000) @ '' KRW'' @ '''',
           baggage, fare_type])"
    and "format_comma_int (500000 + 50000 + 10000) = ''560,000''"
    by blast+
  then have "\<exists>title route baggage fare_type.
      format_offer ?env 0 (JObj sample_offer) =
        Inr (str_join nl [title, route, ''   Price: 560,000 KRW'', baggage, fare_type])"
    by simp
  with comps none ev show ?thesis by blast
qed

lemma offers_loop_blocks:
  "length blocks = length items \<Longrightarrow>
   \<forall>j < length items. format_offer env (i + j) (items ! j) = Inr (blocks ! j) \<Longrightarrow>
   offers_loop env i items results =
     Inr (results @ concat (map (\<lambda>b. [b, replicate 30 CHR ''-'']) blocks))"
proof (induction items arbitrary: i results blocks)
  case Nil
  then show ?case by simp
next
  case (Cons item items)
  then obtain b bs where blocks: "blocks = b # bs"
    by (cases blocks) auto
  from Cons.prems(2) have first: "format_offer env i item = Inr b"
    using blocks by force
  have rest: "\<forall>j < length items. format_offer env (Suc i + j) (items ! j) = Inr (bs ! j)"
    using Cons.prems(2) blocks by force
  have "length bs = length items"
    using Cons.prems(1) blocks by simp
  from Cons.IH [OF this rest] first blocks show ?case by simp
qed

lemma summarize_offers:
  assumes summary: "map_of doc ''GoodsSummary'' = Some (JObj summary)"
    and ok: "map_of summary ''errCnt'' = Some (JStr ''OK'')"
    and goods_list: "map_of doc ''GoodsList'' = Some (JObj goods_list)"
    and goods: "map_of goods_list ''Goods'' = Some (JArr goods)"
    and nonempty: "goods \<noteq> []"
    and len: "length blocks = min 10 (length goods)"
    and blocks: "\<forall>j < min 10 (length goods). format_offer env j (goods ! j) = Inr (blocks ! j)"
  shows "summarize env (JObj doc) =
      Inr (str_join nl
        ([''Found '' @ str_nat (length goods) @ '' flight offers.'', replicate 50 CHR ''-'']
         @ concat (map (\<lambda>b. [b, replicate 30 CHR ''-'']) blocks)
         @ (if length goods > 10
            then [''... and '' @ str_nat (length goods - 10) @ '' more results.'']
            else [])))"
proof -
  have "length blocks = length (take 10 goods)"
    using len by (simp add: min.commute)
  moreover have "\<forall>j < length (take 10 goods).
      format_offer env (0 + j) (take 10 goods ! j) = Inr (blocks ! j)"
    using blocks by (simp add: min.commute)
  ultimately have loop: "offers_loop env 0 (take 10 goods) results =
      Inr (results @ concat (map (\<lambda>b. [b, replicate 30 CHR ''-'']) blocks))" for results
    by (rule offers_loop_blocks)
  show ?thesis
  proof (cases "10 < length goods")
    case True
    then show ?thesis
      using summary ok goods_list goods nonempty loop by (simp add: summarize_def)
  next
    case False
    then show ?thesis
      using summary ok goods_list goods nonempty loop by (simp add: summarize_def)
  qed
qed

text \<open>
  C3. Let the parsed document be a JSON object whose summary has \<open>errCnt\<close> equal to
  \<open>OK\<close> and whose offer list \<open>goods\<close> is not empty, raw output not asked for, and let
  the first offers, at most ten, render to the text blocks \<open>blocks\<close>. Then the output is,
  joined by newlines: the line with the number of offers, a rule of 50 dashes, for each of
  those blocks, in the order of the list, the block and a rule of 30 dashes, and, exactly
  when there are more than ten offers, a last line with the number of offers beyond ten.
  With 15 offers there are exactly 10 blocks and the last line is
  \<open>... and 5 more results.\<close>
\<close>

theorem top_ten_offers:
  "upstream_document env a = Some (JObj doc) \<and> \<not> raw_json a
   \<and> map_of doc ''GoodsSummary'' = Some (JObj summary)
   \<and> map_of summary ''errCnt'' = Some (JStr ''OK'')
   \<and> map_of doc ''GoodsList'' = Some (JObj goods_list)
   \<and> map_of goods_list ''Goods'' = Some (JArr goods) \<and> goods \<noteq> []
   \<and> length blocks = min 10 (length goods)
   \<and> (\<forall>j < min 10 (length goods). format_offer env j (goods ! j) = Inr (blocks ! j))
   \<longrightarrow> search_flights env a =
         Inr (str_join nl
           ([''Found '' @ str_nat (length goods) @ '' flight offers.'', replicate 50 CHR ''-'']
            @ concat (map (\<lambda>b. [b, replicate 30 CHR ''-'']) blocks)
            @ (if length goods > 10
               then [''... and '' @ str_nat (length goods - 10) @ '' more results.'']
               else [])))
       \<and> (length goods = 15 \<longrightarrow>
            length blocks = 10
            \<and> search_flights env a =
                Inr (str_join nl
                  ([''Found 15 flight offers.'', replicate 50 CHR ''-'']
                   @ concat (map (\<lambda>b. [b, replicate 30 CHR ''-'']) blocks)
                   @ [''... and 5 more results.''])))"
proof (intro impI)
  assume h: "upstream_document env a = Some (JObj doc) \<and> \<not> raw_json a
   \<and> map_of doc ''GoodsSummary'' = Some (JObj summary)
   \<and> map_of summary ''errCnt'' = Some (JStr ''OK'')
   \<and> map_of doc ''GoodsList'' = Some (JObj goods_list)
   \<and> map_of goods_list ''Goods'' = Some (JArr goods) \<and> goods \<noteq> []
   \<and> length blocks = min 10 (length goods)
   \<and> (\<forall>j < min 10 (length goods). format_offer env j (goods ! j) = Inr (blocks ! j))"
  let ?out = "str_join nl
        ([''Found '' @ str_nat (length goods) @ '' flight offers.'', replicate 50 CHR ''-'']
         @ concat (map (\<lambda>b. [b, replicate 30 CHR ''-'']) blocks)
         @ (if length goods > 10
            then [''... and '' @ str_nat (length goods - 10) @ '' more results.'']
            else []))"
  from h have "summarize env (JObj doc) = Inr ?out"
    by (intro summarize_offers) blast+
  with h have general: "search_flights env a = Inr ?out"
    by (blast intro: search_flights_document)
  have fifteen: "str_nat 15 = ''15''" "str_nat 5 = ''5''"
    by (simp_all add: str_nat.simps digit_char_def)
  have "length blocks = 10
        \<and> search_flights env a =
            Inr (str_join nl
              ([''Found 15 flight offers.'', replicate 50 CHR ''-'']
               @ concat (map (\<lambda>b. [b, replicate 30 CHR ''-'']) blocks)
               @ [''... and 5 more results.'']))"
    if "length goods = 15"
    using h general that fifteen by simp
  with general show "search_flights env a = Inr ?out
       \<and> (length goods = 15 \<longrightarrow>
            length blocks = 10
            \<and> search_flights env a =
                Inr (str_join nl
                  ([''Found 15 flight offers.'', replicate 50 CHR ''-'']
                   @ concat (map (\<lambda>b. [b, replicate 30 CHR ''-'']) blocks)
                   @ [''... and 5 more results.''])))"
    by blast
qed

lemma format_sample_offer:
  "format_offer env k (JObj [(''SaleFare'', JInt (int k))]) = Inr (sample_block k)"
  by (simp add: format_offer_def cheapest_event_text_def py_add_def py_format_comma_def
      sample_block_def)

theorem top_ten_offers_witness:
  "upstream_document (document_env fifteen_document) default_args = Some fifteen_document
   \<and> \<not> raw_json default_args
   \<and> length fifteen_offers = 15
   \<and> length (map sample_block [0..<10]) = 10
   \<and> map (\<lambda>j. format_offer (document_env fifteen_document) j (fifteen_offers ! j)) [0..<10] =
       map (\<lambda>j. Inr (sample_block j)) [0..<10]
   \<and> search_flights (document_env fifteen_document) default_args =
       Inr (str_join nl
         ([''Found 15 flight offers.'', replicate 50 CHR ''-'']
          @ concat (map (\<lambda>b. [b, replicate 30 CHR ''-'']) (map sample_block [0..<10]))
          @ [''... and 5 more results.'']))"
proof -
  let ?env = "document_env fifteen_document"
  let ?summary = "[(''errCnt'', JStr ''OK'')]"
  let ?goods_list = "[(''Goods'', JArr fifteen_offers)]"
  let ?doc = "[(''GoodsSummary'', JObj ?summary), (''GoodsList'', JObj ?goods_list)]"
  let ?blocks = "map sample_block [0..<10]"
  have len: "length fifteen_offers = 15"
    by (simp add: fifteen_offers_def)
  have doc: "upstream_document ?env default_args = Some (JObj ?doc) \<and> \<not> raw_json default_args"
    by (simp add: eval_env eval_call fifteen_document_def)
  have keys: "map_of ?doc ''GoodsSummary'' = Some (JObj ?summary)
      \<and> map_of ?summary ''errCnt'' = Some (JStr ''OK'')
      \<and> map_of ?doc ''GoodsList'' = Some (JObj ?goods_list)
      \<and> map_of ?goods_list ''Goods'' = Some (JArr fifteen_offers)"
    by simp
  have nonempty: "fifteen_offers \<noteq> []"
    using len by auto
  have blocks_len: "length ?blocks = min 10 (length fifteen_offers)"
    using len by simp
  have each: "format_offer ?env j (fifteen_offers ! j) = Inr (?blocks ! j)" if "j < 10" for j
    using that by (simp add: fifteen_offers_def format_sample_offer)
  then have all: "\<forall>j < min 10 (length fifteen_offers).
      format_offer ?env j (fifteen_offers ! j) = Inr (?blocks ! j)"
    using len by simp
  from top_ten_offers [of ?env default_args ?doc ?summary ?goods_list fifteen_offers ?blocks]
    doc keys nonempty blocks_len all len
  have "search_flights ?env default_args =
       Inr (str_join nl
         ([''Found 15 flight offers.'', replicate 50 CHR ''-'']
          @ concat (map (\<lambda>b. [b, replicate 30 CHR ''-'']) ?blocks)
          @ [''... and 5 more results.'']))"
    by blast
  moreover have "map (\<lambda>j. format_offer ?env j (fifteen_offers ! j)) [0..<10] =
      map (\<lambda>j. Inr (sample_block j)) [0..<10]"
    by (rule map_cong [OF refl]) (simp add: each)
  ultimately show ?thesis
    using doc len by (simp add: fifteen_document_def)
qed

subsection \<open>Raw output\<close>

lemma ascii_literal [simp]: "\<not> non_ascii (Char b0 b1 b2 b3 b4 b5 b6 False)"
  by (simp add: non_ascii_def)

lemma digit_char_ascii: "d < 10 \<Longrightarrow> \<not> non_ascii (digit_char d)"
proof -
  assume "d < 10"
  then have "digit_char d \<in> set ''0123456789''"
    unfolding digit_char_def by (intro nth_mem) simp
  then show ?thesis by auto
qed

lemma hex_digit_ascii: "d < 16 \<Longrightarrow> \<not> non_ascii (hex_digit d)"
proof -
  assume "d < 16"
  then have "hex_digit d \<in> set ''0123456789abcdef''"
    unfolding hex_digit_def by (intro nth_mem) simp
  then show ?thesis by auto
qed

lemma str_nat_ascii: "filter non_ascii (str_nat n) = []"
proof (induction n rule: str_nat.induct)
  case (1 n)
  show ?case
  proof (cases "n < 10")
    case True
    then show ?thesis
      by (subst str_nat.simps) (simp add: digit_char_ascii)
  next
    case False
    with 1 show ?thesis
      by (subst str_nat.simps) (simp add: digit_char_ascii)
  qed
qed

lemma str_int_ascii: "filter non_ascii (str_int n) = []"
  by (simp add: str_int_def str_nat_ascii)

lemma escape_char_non_ascii:
  "filter non_ascii (escape_char c) = (if non_ascii c then [c] else [])"
proof (cases "non_ascii c")
  case True
  then have big: "128 \<le> (of_char c :: nat)"
    by (simp add: non_ascii_def)
  then have "c \<noteq> CHR 0x22" "c \<noteq> CHR 0x5C" "c \<noteq> CHR 0x0A" "c \<noteq> CHR 0x0D" "c \<noteq> CHR 0x09"
    "c \<noteq> CHR 0x08" "c \<noteq> CHR 0x0C" "\<not> (of_char c :: nat) < 32"
    by auto
  with True show ?thesis
    by (simp add: escape_char_def)
next
  case False
  have "(of_char c :: nat) < 32 \<Longrightarrow> (of_char c :: nat) div 16 < 16"
    by simp
  moreover have "(of_char c :: nat) mod 16 < 16"
    by simp
  ultimately show ?thesis
    using False by (simp add: escape_char_def hex_digit_ascii)
qed

lemma concat_escape_non_ascii:
  "filter non_ascii (concat (map escape_char s)) = filter non_ascii s"
  by (induction s) (simp_all add: escape_char_non_ascii)

lemma encode_basestring_non_ascii:
  "filter non_ascii (encode_basestring s) = filter non_ascii s"
  by (simp add: encode_basestring_def concat_escape_non_ascii)

lemma newline_indent_ascii: "filter non_ascii (newline_indent lvl) = []"
  by (simp add: newline_indent_def)

lemma str_join_filter:
  "filter P sep = [] \<Longrightarrow> filter P (str_join sep xs) = concat (map (filter P) xs)"
  by (induction sep xs rule: str_join.induct) simp_all

lemma json_encode_non_ascii:
  "filter non_ascii (json_encode lvl x) = filter non_ascii (json_text x)"
  "concat (map (filter non_ascii) (encode_items lvl xs)) = filter non_ascii (items_text xs)"
  "concat (map (filter non_ascii) (encode_members lvl kvs)) = filter non_ascii (members_text kvs)"
proof (induction lvl x and lvl xs and lvl kvs rule: json_encode_encode_items_encode_members.induct)
  case (5 lvl xs)
  have sep: "filter non_ascii (CHR '','' # newline_indent (Suc lvl)) = []"
    by (simp add: newline_indent_ascii)
  show ?case
  proof (cases "xs = []")
    case True
    then show ?thesis by simp
  next
    case False
    with 5 show ?thesis
      by (simp add: str_join_filter [OF sep] newline_indent_ascii)
  qed
next
  case (6 lvl kvs)
  have sep: "filter non_ascii (CHR '','' # newline_indent (Suc lvl)) = []"
    by (simp add: newline_indent_ascii)
  show ?case
  proof (cases "kvs = []")
    case True
    then show ?thesis by simp
  next
    case False
    with 6 show ?thesis
      by (simp add: str_join_filter [OF sep] newline_indent_ascii)
  qed
next
  case (10 lvl kv kvs)
  then show ?case
    by (simp add: encode_basestring_non_ascii)
qed (simp_all add: str_int_ascii encode_basestring_non_ascii)

text \<open>
  C9. When raw output is asked for and the upstream call returned a document, the result
  is that document serialised by \<open>json_dumps\<close> (two spaces of indentation for each level
  of nesting), whatever the document holds: the summary block and the offer list are not
  looked at. The non-ASCII characters of the output are exactly those of the strings of the
  document, keys and values, in the same order: none is escaped, none is added.
\<close>

theorem raw_json_output:
  "upstream_document env a = Some data \<and> raw_json a
   \<longrightarrow> search_flights env a = Inr (json_dumps data)
       \<and> filter non_ascii (json_dumps data) = filter non_ascii (json_text data)"
  by (simp add: search_flights_returns try_block_document json_dumps_def json_encode_non_ascii)

theorem raw_json_output_witness:
  "upstream_document (document_env accented_document) (default_args \<lparr> raw_json := True \<rparr>) =
     Some accented_document
   \<and> raw_json (default_args \<lparr> raw_json := True \<rparr>)
   \<and> search_flights (document_env accented_document) (default_args \<lparr> raw_json := True \<rparr>) =
       Inr (''{'' @ nl
            @ ''  '' @ [CHR 0x22] @ ''city'' @ [CHR 0x22] @ '': ''
              @ [CHR 0x22, CHR ''O'', CHR ''s'', CHR ''l'', CHR 0xF8, CHR 0x22] @ '','' @ nl
            @ ''  '' @ [CHR 0x22] @ ''n'' @ [CHR 0x22] @ '': ['' @ nl
            @ ''    1'' @ nl
            @ ''  ]'' @ nl
            @ ''}'')
   \<and> filter non_ascii (json_dumps accented_document) = [CHR 0xF8]"
proof -
  let ?env = "document_env accented_document"
  let ?a = "default_args \<lparr> raw_json := True \<rparr>"
  have h: "upstream_document ?env ?a = Some accented_document \<and> raw_json ?a"
    by (simp add: eval_env eval_call)
  have chars: "filter non_ascii (json_text accented_document) = [CHR 0xF8]"
    by (simp add: accented_document_def non_ascii_def)
  have dumps: "json_dumps accented_document =
      ''{'' @ nl
      @ ''  '' @ [CHR 0x22] @ ''city'' @ [CHR 0x22] @ '': ''
        @ [CHR 0x22, CHR ''O'', CHR ''s'', CHR ''l'', CHR 0xF8, CHR 0x22] @ '','' @ nl
      @ ''  '' @ [CHR 0x22] @ ''n'' @ [CHR 0x22] @ '': ['' @ nl
      @ ''    1'' @ nl
      @ ''  ]'' @ nl
      @ ''}''"
    by (simp add: json_dumps_def accented_document_def encode_basestring_def escape_char_def
        newline_indent_def nl_def eval_numbers numeral_2_eq_2)
  from raw_json_output [of ?env ?a accented_document] h
  have "search_flights ?env ?a = Inr (json_dumps accented_document)"
    and "filter non_ascii (json_dumps accented_document) = filter non_ascii (json_text accented_document)"
    by blast+
  with h chars dumps show ?thesis by simp
qed

end
